theory Spec2Isabelle
  imports Complex_Main
begin

section \<open>Python values and exceptions\<close>

text \<open>
  The tool in \<^verbatim>\<open>src/langflow/adk_policy_tool.py\<close> works on the decoded JSON body of the
  retrieval service, which is untyped: any nesting level may hold any JSON value. A value
  is therefore a \<open>pyval\<close>. A dict is an association list read with \<open>map_of\<close> (the keys
  of a decoded JSON object are strings). A Python float carries its exact rational value:
  IEEE rounding and overflow are not part of this model.
\<close>

datatype pyval =
    PNone
  | PBool bool
  | PInt int
  | PFloat rat
  | PStr string
  | PList "pyval list"
  | PDict "(string \<times> pyval) list"

text \<open>
  The exceptions the tool can meet, all of them subclasses of Python's \<open>Exception\<close>:
  the ones the interpreter raises on a wrong access, and \<open>RequestException\<close> for every
  failure of \<open>requests.post\<close>, \<open>raise_for_status\<close> and \<open>response.json\<close> (connection
  error, timeout, HTTP error status, undecodable body), with its description. What is
  not an \<open>Exception\<close> (\<open>KeyboardInterrupt\<close>, \<open>SystemExit\<close>) does not come from the
  retrieval call and is not modelled.
\<close>

datatype pyexc =
    AttributeError
  | IndexError
  | KeyError
  | TypeError
  | ZeroDivisionError
  | RequestException string

text \<open>Truth value testing, as \<open>if x:\<close> and \<open>x if c else y\<close> do it.\<close>

fun truthy :: "pyval \<Rightarrow> bool" where
  "truthy PNone = False"
| "truthy (PBool b) = b"
| "truthy (PInt i) = (i \<noteq> 0)"
| "truthy (PFloat q) = (q \<noteq> 0)"
| "truthy (PStr s) = (s \<noteq> [])"
| "truthy (PList xs) = (xs \<noteq> [])"
| "truthy (PDict kvs) = (kvs \<noteq> [])"

text \<open>\<open>d.get(key, default)\<close>: only a dict has the method.\<close>

fun py_get :: "pyval \<Rightarrow> string \<Rightarrow> pyval \<Rightarrow> pyexc + pyval" where
  "py_get (PDict kvs) k d = Inr (case map_of kvs k of Some v \<Rightarrow> v | None \<Rightarrow> d)"
| "py_get _ k d = Inl AttributeError"

text \<open>
  \<open>x[i]\<close> for an index \<open>i \<ge> 0\<close>: a list or a string is read by position, a dict is
  looked up with the integer as key (which a dict with string keys never holds), and
  nothing else can be subscripted.
\<close>

fun py_getitem :: "pyval \<Rightarrow> nat \<Rightarrow> pyexc + pyval" where
  "py_getitem (PList xs) i = (if i < length xs then Inr (xs ! i) else Inl IndexError)"
| "py_getitem (PStr s) i = (if i < length s then Inr (PStr [s ! i]) else Inl IndexError)"
| "py_getitem (PDict kvs) i = Inl KeyError"
| "py_getitem _ i = Inl TypeError"

text \<open>The elements a \<open>for\<close> loop (here through \<open>enumerate\<close>) draws from a value.\<close>

fun py_iter :: "pyval \<Rightarrow> pyexc + pyval list" where
  "py_iter (PList xs) = Inr xs"
| "py_iter (PStr s) = Inr (map (\<lambda>c. PStr [c]) s)"
| "py_iter (PDict kvs) = Inr (map PStr (remdups (map fst kvs)))"
| "py_iter _ = Inl TypeError"

text \<open>\<open>len(x)\<close>.\<close>

fun py_len :: "pyval \<Rightarrow> pyexc + nat" where
  "py_len (PStr s) = Inr (length s)"
| "py_len (PList xs) = Inr (length xs)"
| "py_len (PDict kvs) = Inr (length (remdups (map fst kvs)))"
| "py_len _ = Inl TypeError"

text \<open>
  \<open>x[:n]\<close>: a prefix of a string or of a list. A dict cannot be sliced (\<open>TypeError\<close>,
  the slice being unhashable; \<open>KeyError\<close> from Python 3.12 on).
\<close>

fun py_slice_to :: "pyval \<Rightarrow> nat \<Rightarrow> pyexc + pyval" where
  "py_slice_to (PStr s) n = Inr (PStr (take n s))"
| "py_slice_to (PList xs) n = Inr (PList (take n xs))"
| "py_slice_to _ n = Inl TypeError"

text \<open>
  A replacement field \<open>{x}\<close> of an f-string: a string is inserted as it is, any other
  value as the builtin \<open>str\<close> prints it. That printing is a parameter of the model.
\<close>

fun py_format :: "(pyval \<Rightarrow> string) \<Rightarrow> pyval \<Rightarrow> string" where
  "py_format str (PStr s) = s"
| "py_format str v = str v"

text \<open>Numbers: \<open>bool\<close> is a subclass of \<open>int\<close>, and \<open>int + float\<close> is a float.\<close>

fun is_number :: "pyval \<Rightarrow> bool" where
  "is_number (PBool b) = True"
| "is_number (PInt i) = True"
| "is_number (PFloat q) = True"
| "is_number _ = False"

fun num_val :: "pyval \<Rightarrow> rat" where
  "num_val (PBool b) = (if b then 1 else 0)"
| "num_val (PInt i) = of_int i"
| "num_val (PFloat q) = q"
| "num_val _ = 0"

fun is_float :: "pyval \<Rightarrow> bool" where
  "is_float (PFloat q) = True"
| "is_float _ = False"

fun int_val :: "pyval \<Rightarrow> int" where
  "int_val (PBool b) = (if b then 1 else 0)"
| "int_val (PInt i) = i"
| "int_val _ = 0"

definition py_add :: "pyval \<Rightarrow> pyval \<Rightarrow> pyexc + pyval" where
  "py_add a b =
     (if is_number a \<and> is_number b then
        (if is_float a \<or> is_float b then Inr (PFloat (num_val a + num_val b))
         else Inr (PInt (int_val a + int_val b)))
      else Inl TypeError)"

text \<open>\<open>sum(xs)\<close>: starts from the integer 0 and adds the elements from the left.\<close>

fun py_sum_from :: "pyval \<Rightarrow> pyval list \<Rightarrow> pyexc + pyval" where
  "py_sum_from acc [] = Inr acc"
| "py_sum_from acc (x # xs) =
     (case py_add acc x of Inl e \<Rightarrow> Inl e | Inr acc' \<Rightarrow> py_sum_from acc' xs)"

definition py_sum :: "pyval list \<Rightarrow> pyexc + pyval" where
  "py_sum xs = py_sum_from (PInt 0) xs"

text \<open>\<open>a / n\<close> for a length \<open>n\<close>: true division, a float.\<close>

definition py_truediv :: "pyval \<Rightarrow> nat \<Rightarrow> pyexc + pyval" where
  "py_truediv a n =
     (if \<not> is_number a then Inl TypeError
      else if n = 0 then Inl ZeroDivisionError
      else Inr (PFloat (num_val a / of_nat n)))"


section \<open>The request: \<open>_call_langflow_rag\<close>\<close>

text \<open>
  \<open>d[key] = v\<close> on a dict: the binding of an existing key is replaced in place, a new
  key is added at the end.
\<close>

fun dict_set :: "(string \<times> pyval) list \<Rightarrow> string \<Rightarrow> pyval \<Rightarrow> (string \<times> pyval) list" where
  "dict_set [] k v = [(k, v)]"
| "dict_set ((k', v') # kvs) k v =
     (if k' = k then (k, v) # kvs else (k', v') # dict_set kvs k v)"

text \<open>
  Lines 125 to 140: the payload literal, then the filter stored under
  \<open>payload["tweaks"]["Retriever"]\<close> when \<open>section_filter\<close> is truthy, that is, neither
  \<open>None\<close> nor the empty string.
\<close>

definition retriever_tweaks :: "string option \<Rightarrow> int \<Rightarrow> (string \<times> pyval) list" where
  "retriever_tweaks section_filter top_k =
     (let retriever = [(''top_k'', PInt top_k)]
      in case section_filter of
           None \<Rightarrow> retriever
         | Some f \<Rightarrow>
             if f \<noteq> [] then
               dict_set retriever ''filter''
                 (PDict [(''section_number'', PDict [(''$eq'', PStr f)])])
             else retriever)"

definition payload :: "string \<Rightarrow> string option \<Rightarrow> int \<Rightarrow> pyval" where
  "payload query section_filter top_k =
     PDict [(''input_value'', PStr query),
            (''output_type'', PStr ''chat''),
            (''input_type'', PStr ''chat''),
            (''tweaks'', PDict [(''Retriever'', PDict (retriever_tweaks section_filter top_k))])]"

text \<open>
  The configuration read from the environment, and the endpoint built from it. The HTTP
  exchange (\<open>requests.post\<close> with the 30 second timeout, \<open>raise_for_status\<close>,
  \<open>response.json\<close>) is the parameter \<open>post\<close>: from the endpoint and the payload it
  gives the decoded body, or the exception raised.
\<close>

record config =
  LANGFLOW_URL :: string
  FLOW_ID :: string

definition endpoint :: "config \<Rightarrow> string" where
  "endpoint cfg = LANGFLOW_URL cfg @ ''/api/v1/run/'' @ FLOW_ID cfg"

definition call_langflow_rag ::
  "config \<Rightarrow> (string \<Rightarrow> pyval \<Rightarrow> pyexc + pyval) \<Rightarrow> string \<Rightarrow> string option \<Rightarrow> int
     \<Rightarrow> pyexc + pyval" where
  "call_langflow_rag cfg post query section_filter top_k =
     post (endpoint cfg) (payload query section_filter top_k)"

text \<open>Reading a payload: a chain of subscripts, and the keys that occur anywhere in it.\<close>

fun lookup_path :: "pyval \<Rightarrow> string list \<Rightarrow> pyval option" where
  "lookup_path v [] = Some v"
| "lookup_path (PDict kvs) (k # ks) =
     (case map_of kvs k of None \<Rightarrow> None | Some v \<Rightarrow> lookup_path v ks)"
| "lookup_path _ (k # ks) = None"

primrec all_keys :: "pyval \<Rightarrow> string list" where
  "all_keys PNone = []"
| "all_keys (PBool b) = []"
| "all_keys (PInt i) = []"
| "all_keys (PFloat q) = []"
| "all_keys (PStr s) = []"
| "all_keys (PList xs) = concat (map all_keys xs)"
| "all_keys (PDict kvs) = concat (map (\<lambda>kv. fst kv # snd kv) (map (map_prod id all_keys) kvs))"

section \<open>The answer: \<open>_format_response\<close>, \<open>_generate_summary\<close>, \<open>_handle_error\<close>\<close>

record section_info =
  content :: pyval
  section_number :: pyval
  section_title :: pyval
  page_number :: pyval

record confidence =
  scores :: "pyval list"
  average :: pyval

record success_result =
  query :: string
  relevant_sections :: "section_info list"
  citations :: "string list"
  confidence :: confidence
  summary :: string
  source :: string

text \<open>
  The dict of \<open>_handle_error\<close> has the keys \<open>query\<close>, \<open>error\<close>, \<open>error_message\<close>,
  \<open>fallback\<close>, \<open>relevant_sections\<close> and \<open>citations\<close>; the three it shares with the
  success dict are prefixed here.
\<close>

record error_result =
  err_query :: string
  error :: bool
  error_message :: string
  fallback :: string
  err_relevant_sections :: "section_info list"
  err_citations :: "string list"

datatype answer_result = Success success_result | Failure error_result

text \<open>Lines 162 and 163: the result object inside the two \<open>outputs\<close> levels.\<close>

definition extract_result :: "pyval \<Rightarrow> pyexc + pyval" where
  "extract_result raw_response =
     (case py_get raw_response ''outputs'' (PList [PDict []]) of
        Inl e \<Rightarrow> Inl e
      | Inr outputs \<Rightarrow>
          if truthy outputs then
            (case py_getitem outputs 0 of
               Inl e \<Rightarrow> Inl e
             | Inr first \<Rightarrow>
                 (case py_get first ''outputs'' (PList [PDict []]) of
                    Inl e \<Rightarrow> Inl e
                  | Inr inner \<Rightarrow> py_getitem inner 0))
          else Inr (PDict []))"

text \<open>\<open>metadata[i].get(key, default)\<close>.\<close>

definition metadata_get :: "pyval \<Rightarrow> nat \<Rightarrow> string \<Rightarrow> pyval \<Rightarrow> pyexc + pyval" where
  "metadata_get metadata i k d =
     (case py_getitem metadata i of Inl e \<Rightarrow> Inl e | Inr entry \<Rightarrow> py_get entry k d)"

text \<open>Lines 182 to 184: the citation of a section.\<close>

definition citation_of :: "(pyval \<Rightarrow> string) \<Rightarrow> section_info \<Rightarrow> string" where
  "citation_of str info =
     (let citation = ''Section '' @ py_format str (section_number info)
      in if truthy (section_title info)
         then citation @ '' ('' @ py_format str (section_title info) @ '')''
         else citation)"

text \<open>The body of the loop, lines 174 to 187, for the chunk at index \<open>i\<close>.\<close>

definition format_chunk ::
  "(pyval \<Rightarrow> string) \<Rightarrow> pyval \<Rightarrow> nat \<Rightarrow> pyval \<Rightarrow> pyexc + (section_info \<times> string \<times> pyval)" where
  "format_chunk str metadata i chunk =
     (case py_get chunk ''text'' (PStr []) of
        Inl e \<Rightarrow> Inl e
      | Inr text \<Rightarrow>
     (case metadata_get metadata i ''section_number'' (PStr ''Unknown'') of
        Inl e \<Rightarrow> Inl e
      | Inr number \<Rightarrow>
     (case metadata_get metadata i ''section_title'' (PStr []) of
        Inl e \<Rightarrow> Inl e
      | Inr title \<Rightarrow>
     (case metadata_get metadata i ''page_number'' (PInt 0) of
        Inl e \<Rightarrow> Inl e
      | Inr page \<Rightarrow>
          (let info = \<lparr>content = text, section_number = number,
                       section_title = title, page_number = page\<rparr>
           in case py_get chunk ''similarity_score'' (PFloat 0) of
                Inl e \<Rightarrow> Inl e
              | Inr score \<Rightarrow> Inr (info, citation_of str info, score))))))"

text \<open>
  The loop over \<open>enumerate(chunks)\<close>: the three lists grow by one element per chunk, and
  the first exception ends the loop.
\<close>

fun format_loop ::
  "(pyval \<Rightarrow> string) \<Rightarrow> pyval \<Rightarrow> nat \<Rightarrow> pyval list
     \<Rightarrow> section_info list \<times> string list \<times> pyval list
     \<Rightarrow> pyexc + (section_info list \<times> string list \<times> pyval list)" where
  "format_loop str metadata i [] acc = Inr acc"
| "format_loop str metadata i (chunk # chunks) (sections, cites, confidence_scores) =
     (case format_chunk str metadata i chunk of
        Inl e \<Rightarrow> Inl e
      | Inr (info, citation, score) \<Rightarrow>
          format_loop str metadata (Suc i) chunks
            (sections @ [info], cites @ [citation], confidence_scores @ [score]))"

text \<open>\<open>_generate_summary\<close>, lines 211 to 222. The query \<open>q\<close> is not used.\<close>

definition generate_summary ::
  "(pyval \<Rightarrow> string) \<Rightarrow> section_info list \<Rightarrow> string \<Rightarrow> pyexc + string" where
  "generate_summary str sections q =
     (case sections of
        [] \<Rightarrow> Inr ''No relevant policy sections found for this query.''
      | top_section # _ \<Rightarrow>
          (case py_len (content top_section) of
             Inl e \<Rightarrow> Inl e
           | Inr n \<Rightarrow>
               if n > 500 then
                 (case py_slice_to (content top_section) 500 of
                    Inl e \<Rightarrow> Inl e
                  | Inr excerpt \<Rightarrow>
                      Inr (''Based on '' @ py_format str (section_number top_section) @ '': ''
                           @ py_format str excerpt @ ''...''))
               else
                 Inr (''Based on Section '' @ py_format str (section_number top_section) @ '': ''
                      @ py_format str (content top_section))))"

text \<open>Line 198: the mean of the scores, or the integer 0 for an empty list.\<close>

definition average_of :: "pyval list \<Rightarrow> pyexc + pyval" where
  "average_of confidence_scores =
     (if confidence_scores \<noteq> [] then
        (case py_sum confidence_scores of
           Inl e \<Rightarrow> Inl e
         | Inr s \<Rightarrow> py_truediv s (length confidence_scores))
      else Inr (PInt 0))"

definition format_response :: "(pyval \<Rightarrow> string) \<Rightarrow> pyval \<Rightarrow> string \<Rightarrow> pyexc + success_result" where
  "format_response str raw_response original_query =
     (case extract_result raw_response of
        Inl e \<Rightarrow> Inl e
      | Inr result \<Rightarrow>
     (case py_get result ''chunks'' (PList []) of
        Inl e \<Rightarrow> Inl e
      | Inr chunks \<Rightarrow>
     (case py_get result ''metadata'' (PList []) of
        Inl e \<Rightarrow> Inl e
      | Inr metadata \<Rightarrow>
     (case py_iter chunks of
        Inl e \<Rightarrow> Inl e
      | Inr cs \<Rightarrow>
     (case format_loop str metadata 0 cs ([], [], []) of
        Inl e \<Rightarrow> Inl e
      | Inr (sections, cites, confidence_scores) \<Rightarrow>
     (case generate_summary str sections original_query of
        Inl e \<Rightarrow> Inl e
      | Inr summ \<Rightarrow>
     (case average_of confidence_scores of
        Inl e \<Rightarrow> Inl e
      | Inr avg \<Rightarrow>
          Inr \<lparr>query = original_query,
               relevant_sections = sections,
               citations = cites,
               confidence = \<lparr>scores = confidence_scores, average = avg\<rparr>,
               summary = summ,
               source = ''ACME Corp Procurement Policy v2.1''\<rparr>)))))))"

text \<open>
  \<open>_handle_error\<close>. The message is \<open>str(error)\<close>; how the builtin prints an exception
  is the parameter \<open>str_exc\<close>.
\<close>

definition handle_error :: "(pyexc \<Rightarrow> string) \<Rightarrow> pyexc \<Rightarrow> string \<Rightarrow> error_result" where
  "handle_error str_exc err q =
     \<lparr>err_query = q,
      error = True,
      error_message = str_exc err,
      fallback = ''Unable to retrieve policy information dynamically. ''
                 @ ''Please consult the policy document directly or contact ''
                 @ ''procurement@acme.corp for assistance.'',
      err_relevant_sections = [],
      err_citations = []\<rparr>"

section \<open>The tool: \<open>execute\<close>\<close>

text \<open>
  \<open>try: ... except Exception as e: ...\<close>: the handler takes every exception of the body;
  what the handler itself raises would leave the statement.
\<close>

definition try_except :: "pyexc + 'a \<Rightarrow> (pyexc \<Rightarrow> pyexc + 'a) \<Rightarrow> pyexc + 'a" where
  "try_except body handler = (case body of Inl e \<Rightarrow> handler e | Inr v \<Rightarrow> Inr v)"

definition execute ::
  "config \<Rightarrow> (string \<Rightarrow> pyval \<Rightarrow> pyexc + pyval) \<Rightarrow> (pyexc \<Rightarrow> string) \<Rightarrow> (pyval \<Rightarrow> string)
     \<Rightarrow> string \<Rightarrow> string option \<Rightarrow> int \<Rightarrow> pyexc + answer_result" where
  "execute cfg post str_exc str q section_filter top_k =
     try_except
       (case call_langflow_rag cfg post q section_filter top_k of
          Inl e \<Rightarrow> Inl e
        | Inr response \<Rightarrow>
            (case format_response str response q of
               Inl e \<Rightarrow> Inl e
             | Inr answer \<Rightarrow> Inr (Success answer)))
       (\<lambda>e. Inr (Failure (handle_error str_exc e q)))"

section \<open>Records as the retrieval service documents them\<close>




section \<open>The loop of \<open>_format_response\<close>\<close>

lemma format_chunk_Inr:
  "format_chunk str md i chunk = Inr (info, cit, sc) \<Longrightarrow>
     py_get chunk ''text'' (PStr []) = Inr (content info) \<and>
     metadata_get md i ''section_number'' (PStr ''Unknown'') = Inr (section_number info) \<and>
     metadata_get md i ''section_title'' (PStr []) = Inr (section_title info) \<and>
     metadata_get md i ''page_number'' (PInt 0) = Inr (page_number info) \<and>
     cit = citation_of str info \<and>
     py_get chunk ''similarity_score'' (PFloat 0) = Inr sc"
  by (auto simp: format_chunk_def Let_def split: sum.splits)


text \<open>
  What the loop returns is the list it started from, followed by the results of the
  chunks, one for each and in their order.
\<close>

lemma format_loop_Inr:
  "format_loop str md i cs (a, b, c) = Inr (a', b', c') \<Longrightarrow>
     (\<exists>xs. length xs = length cs \<and> a' = a @ map fst xs \<and> b' = b @ map (fst \<circ> snd) xs
        \<and> c' = c @ map (snd \<circ> snd) xs
        \<and> (\<forall>j<length cs. format_chunk str md (i + j) (cs ! j) = Inr (xs ! j)))"
proof (induction cs arbitrary: i a b c)
  case Nil
  then show ?case by simp
next
  case (Cons x cs)
  from Cons.prems obtain info cit sc where
    h: "format_chunk str md i x = Inr (info, cit, sc)"
    and r: "format_loop str md (Suc i) cs (a @ [info], b @ [cit], c @ [sc]) = Inr (a', b', c')"
    by (auto split: sum.splits)
  from Cons.IH [OF r] obtain xs where
    xs: "length xs = length cs" "a' = (a @ [info]) @ map fst xs"
        "b' = (b @ [cit]) @ map (fst \<circ> snd) xs" "c' = (c @ [sc]) @ map (snd \<circ> snd) xs"
        "\<forall>j<length cs. format_chunk str md (Suc i + j) (cs ! j) = Inr (xs ! j)"
    by blast
  let ?ys = "(info, cit, sc) # xs"
  have "\<forall>j<length (x # cs). format_chunk str md (i + j) ((x # cs) ! j) = Inr (?ys ! j)"
  proof (intro allI impI)
    fix j assume "j < length (x # cs)"
    then show "format_chunk str md (i + j) ((x # cs) ! j) = Inr (?ys ! j)"
      using h xs(5) by (cases j) auto
  qed
  then show ?case using xs by (intro exI [of _ ?ys]) simp
qed


section \<open>The steps of \<open>_format_response\<close>\<close>

lemma format_response_Inr:
  assumes "format_response str raw q = Inr r"
  shows "\<exists>result chunks md cs.
     extract_result raw = Inr result \<and>
     py_get result ''chunks'' (PList []) = Inr chunks \<and>
     py_get result ''metadata'' (PList []) = Inr md \<and>
     py_iter chunks = Inr cs \<and>
     format_loop str md 0 cs ([], [], []) = Inr (relevant_sections r, citations r, scores (confidence r)) \<and>
     generate_summary str (relevant_sections r) q = Inr (summary r) \<and>
     average_of (scores (confidence r)) = Inr (average (confidence r)) \<and>
     query r = q \<and> source r = ''ACME Corp Procurement Policy v2.1''"
  using assms unfolding format_response_def
  by (auto split: sum.splits prod.splits)























section \<open>Responses made of well-formed records\<close>







section \<open>A response with two chunks\<close>

text \<open>The formatter on a body with two chunks, the second with partial metadata.\<close>

lemma format_response_example:
  "format_response (\<lambda>v. ''?'')
     (PDict [(''outputs'', PList [PDict [(''outputs'', PList [PDict
        [(''chunks'', PList
            [PDict [(''text'', PStr ''Interns may order tier 1 equipment.''),
                    (''similarity_score'', PFloat (9 / 10))],
             PDict [(''text'', PStr ''Managers may order tier 3 equipment.''),
                    (''similarity_score'', PFloat (4 / 5))]]),
         (''metadata'', PList
            [PDict [(''section_number'', PStr ''3.2''),
                    (''section_title'', PStr ''Equipment Tiers''),
                    (''page_number'', PInt 12)],
             PDict [(''section_number'', PStr ''3.2'')]])]])]])])
     ''equipment limit''
   = Inr \<lparr>query = ''equipment limit'',
          relevant_sections =
            [\<lparr>content = PStr ''Interns may order tier 1 equipment.'',
               section_number = PStr ''3.2'', section_title = PStr ''Equipment Tiers'',
               page_number = PInt 12\<rparr>,
             \<lparr>content = PStr ''Managers may order tier 3 equipment.'',
               section_number = PStr ''3.2'', section_title = PStr [],
               page_number = PInt 0\<rparr>],
          citations = [''Section 3.2 (Equipment Tiers)'', ''Section 3.2''],
          confidence = \<lparr>scores = [PFloat (9 / 10), PFloat (4 / 5)], average = PFloat (17 / 20)\<rparr>,
          summary = ''Based on Section 3.2: Interns may order tier 1 equipment.'',
          source = ''ACME Corp Procurement Policy v2.1''\<rparr>"
  by (simp add: format_response_def extract_result_def format_chunk_def metadata_get_def
      citation_of_def generate_summary_def average_of_def py_sum_def py_add_def py_truediv_def)

section \<open>Responses with missing keys\<close>

text \<open>
  A body without \<open>outputs\<close>, with an empty outer \<open>outputs\<close> list, or whose objects lack
  the inner \<open>outputs\<close>, \<open>chunks\<close> and \<open>metadata\<close> keys gives the empty answer.
\<close>

lemma format_response_missing_keys:
  assumes "raw = PDict [] \<or> raw = PDict [(''outputs'', PList [])]
         \<or> raw = PDict [(''outputs'', PList [PDict []])]
         \<or> raw = PDict [(''outputs'', PList [PDict [(''outputs'', PList [PDict []])]])]"
  shows "format_response str raw q =
     Inr \<lparr>query = q, relevant_sections = [], citations = [],
          confidence = \<lparr>scores = [], average = PInt 0\<rparr>,
          summary = ''No relevant policy sections found for this query.'',
          source = ''ACME Corp Procurement Policy v2.1''\<rparr>"
  using assms
  by (auto simp: format_response_def extract_result_def generate_summary_def average_of_def)


section \<open>Metadata shorter than the chunk list\<close>

text \<open>
  Claim C1 says that a chunk whose metadata entry is missing still gets a section, with
  the defaults \<open>"Unknown"\<close>, \<open>""\<close> and \<open>0\<close> and the citation \<open>"Section Unknown"\<close>. The
  defaults of \<open>metadata[i].get\<close> cover a field missing from an entry; the entry itself is
  read with \<open>metadata[i]\<close>, which raises \<open>IndexError\<close> when the metadata list is shorter
  than the chunk list. For one chunk and no metadata the formatter raises instead of
  returning a section.
\<close>

theorem format_response_short_metadata_raises:
  "format_response str
     (PDict [(''outputs'',
        PList [PDict [(''outputs'',
          PList [PDict [(''chunks'', PList [PDict [(''text'', PStr ''Interns: tier 1 only.'')]]),
                        (''metadata'', PList [])]])]])])
     q = Inl IndexError"
  by (simp add: format_response_def extract_result_def format_chunk_def metadata_get_def)

section \<open>A response without the inner result object\<close>

text \<open>
  Claim C2 says that the formatter never raises and turns every response with missing
  nesting into the empty answer. The outer \<open>outputs\<close> list is guarded
  (\<open>... if outputs else {}\<close>), the inner one is not: \<open>[0]\<close> on an empty inner list
  raises \<open>IndexError\<close>.
\<close>

theorem format_response_empty_inner_outputs_raises:
  "format_response str (PDict [(''outputs'', PList [PDict [(''outputs'', PList [])]])]) q
     = Inl IndexError"
  by (simp add: format_response_def extract_result_def)

section \<open>No exception leaves \<open>execute\<close>\<close>

text \<open>
  Claim C3: whatever the query, the filter and the limit are, and whatever the retrieval
  call does (return a body or raise), \<open>execute\<close> returns an answer and raises nothing.
  When the call raises, and also when the formatter raises on the body, the answer is the
  error variant: \<open>error\<close> true, the message of the exception, the fixed fallback text
  (which is not empty), no sections and no citations. Otherwise it is the formatted answer.
\<close>

theorem execute_never_raises:
  "(\<exists>a. execute cfg post str_exc str q sf k = Inr a) \<and>
   (call_langflow_rag cfg post q sf k = Inl e \<longrightarrow>
      execute cfg post str_exc str q sf k =
        Inr (Failure \<lparr>err_query = q, error = True, error_message = str_exc e,
               fallback = ''Unable to retrieve policy information dynamically. Please consult the policy document directly or contact procurement@acme.corp for assistance.'',
               err_relevant_sections = [], err_citations = []\<rparr>)) \<and>
   (call_langflow_rag cfg post q sf k = Inr resp \<and> format_response str resp q = Inl e \<longrightarrow>
      execute cfg post str_exc str q sf k =
        Inr (Failure \<lparr>err_query = q, error = True, error_message = str_exc e,
               fallback = ''Unable to retrieve policy information dynamically. Please consult the policy document directly or contact procurement@acme.corp for assistance.'',
               err_relevant_sections = [], err_citations = []\<rparr>)) \<and>
   (call_langflow_rag cfg post q sf k = Inr resp \<and> format_response str resp q = Inr r \<longrightarrow>
      execute cfg post str_exc str q sf k = Inr (Success r)) \<and>
   (execute cfg post str_exc str q sf k = Inr (Failure f) \<longrightarrow>
      err_query f = q \<and> error f \<and> fallback f \<noteq> [] \<and>
      err_relevant_sections f = [] \<and> err_citations f = [])"
  by (auto simp: execute_def try_except_def handle_error_def split: sum.splits)

text \<open>A timeout of the retrieval call for the query \<open>"gaming equipment?"\<close>.\<close>

theorem execute_never_raises_witness:
  "call_langflow_rag \<lparr>LANGFLOW_URL = ''http://127.0.0.1:7860'', FLOW_ID = ''policy-rag-flow''\<rparr>
      (\<lambda>url body. Inl (RequestException ''timed out'')) ''gaming equipment?'' None 3
     = Inl (RequestException ''timed out'') \<and>
   execute \<lparr>LANGFLOW_URL = ''http://127.0.0.1:7860'', FLOW_ID = ''policy-rag-flow''\<rparr>
      (\<lambda>url body. Inl (RequestException ''timed out''))
      (\<lambda>e. case e of RequestException m \<Rightarrow> m | _ \<Rightarrow> ''error'') (\<lambda>v. ''?'')
      ''gaming equipment?'' None 3
     = Inr (Failure \<lparr>err_query = ''gaming equipment?'', error = True, error_message = ''timed out'',
               fallback = ''Unable to retrieve policy information dynamically. Please consult the policy document directly or contact procurement@acme.corp for assistance.'',
               err_relevant_sections = [], err_citations = []\<rparr>)"
proof -
  have c: "call_langflow_rag \<lparr>LANGFLOW_URL = ''http://127.0.0.1:7860'', FLOW_ID = ''policy-rag-flow''\<rparr>
      (\<lambda>url body. Inl (RequestException ''timed out'')) ''gaming equipment?'' None 3
     = Inl (RequestException ''timed out'')"
    by (simp add: call_langflow_rag_def)
  from c execute_never_raises
    [of "\<lparr>LANGFLOW_URL = ''http://127.0.0.1:7860'', FLOW_ID = ''policy-rag-flow''\<rparr>"
        "\<lambda>url body. Inl (RequestException ''timed out'')"
        "\<lambda>e. case e of RequestException m \<Rightarrow> m | _ \<Rightarrow> ''error''" "\<lambda>v. ''?''"
        "''gaming equipment?''" None 3 "RequestException ''timed out''"]
  show ?thesis by simp
qed

section \<open>The summary\<close>

text \<open>
  Claim C4: the summary comes from the first section alone. Without sections it is
  \<open>"No relevant policy sections found for this query."\<close>. With a first section of number
  \<open>n\<close> and content \<open>c\<close> it is \<open>"Based on n: "\<close>, the first 500 characters of \<open>c\<close> and
  \<open>"..."\<close> when \<open>c\<close> is longer than 500 characters, and \<open>"Based on Section n: c"\<close>
  otherwise; the two wordings differ. The summary of a formatted answer is the summary of
  its sections.
\<close>

theorem generate_summary_rule:
  "generate_summary str [] q = Inr ''No relevant policy sections found for this query.'' \<and>
   (content s = PStr c \<longrightarrow>
      generate_summary str (s # rest) q =
        Inr (if length c > 500
             then ''Based on '' @ py_format str (section_number s) @ '': '' @ take 500 c @ ''...''
             else ''Based on Section '' @ py_format str (section_number s) @ '': '' @ c)) \<and>
   (format_response str raw q = Inr r \<longrightarrow>
      generate_summary str (relevant_sections r) q = Inr (summary r))"
  by (auto simp: generate_summary_def format_response_def split: sum.splits prod.splits)

text \<open>A content of 501 characters is cut to 500; one of 500 characters is kept whole.\<close>

theorem generate_summary_rule_witness:
  "generate_summary (\<lambda>v. ''?'')
     [\<lparr>content = PStr (replicate 501 CHR ''x''), section_number = PStr ''3.2'',
       section_title = PStr ''Equipment Tiers'', page_number = PInt 7\<rparr>] ''limit''
     = Inr (''Based on 3.2: '' @ replicate 500 CHR ''x'' @ ''...'') \<and>
   generate_summary (\<lambda>v. ''?'')
     [\<lparr>content = PStr (replicate 500 CHR ''x''), section_number = PStr ''3.2'',
       section_title = PStr ''Equipment Tiers'', page_number = PInt 7\<rparr>] ''limit''
     = Inr (''Based on Section 3.2: '' @ replicate 500 CHR ''x'')"
  using generate_summary_rule
    [of "\<lambda>v. ''?''" "''limit''"
        "\<lparr>content = PStr (replicate 501 CHR ''x''), section_number = PStr ''3.2'',
          section_title = PStr ''Equipment Tiers'', page_number = PInt 7\<rparr>"
        "replicate 501 CHR ''x''" "[]"]
    generate_summary_rule
    [of "\<lambda>v. ''?''" "''limit''"
        "\<lparr>content = PStr (replicate 500 CHR ''x''), section_number = PStr ''3.2'',
          section_title = PStr ''Equipment Tiers'', page_number = PInt 7\<rparr>"
        "replicate 500 CHR ''x''" "[]"]
  by simp

section \<open>Order and length of the three lists\<close>



section \<open>The filter of the request\<close>

text \<open>
  Claim C6 says that the payload has no \<open>filter\<close> key when \<open>section_filter\<close> is absent,
  and that it has the equality constraint on \<open>section_number\<close> under
  \<open>tweaks.Retriever.filter\<close> whenever \<open>section_filter\<close> is provided. The second half
  fails for the empty string, which \<open>if section_filter:\<close> takes as absent.
\<close>

theorem payload_filter_empty_string:
  "lookup_path (payload ''laptop limit'' (Some []) 3) [''tweaks'', ''Retriever'', ''filter'']
     = None"
  by (simp add: payload_def retriever_tweaks_def)

text \<open>
  Claim C6 as amended: no \<open>filter\<close> key anywhere in the payload when \<open>section_filter\<close> is
  absent, and the equality constraint when it is provided and not empty.
\<close>

theorem payload_filter:
  "''filter'' \<notin> set (all_keys (payload q None k)) \<and>
   (f \<noteq> [] \<longrightarrow>
      lookup_path (payload q (Some f) k) [''tweaks'', ''Retriever'', ''filter'']
        = Some (PDict [(''section_number'', PDict [(''$eq'', PStr f)])]))"
  by (simp add: payload_def retriever_tweaks_def)

theorem payload_filter_witness:
  "''3.2'' \<noteq> [] \<and>
   lookup_path (payload ''laptop limit'' (Some ''3.2'') 3) [''tweaks'', ''Retriever'', ''filter'']
        = Some (PDict [(''section_number'', PDict [(''$eq'', PStr ''3.2'')])])"
  using payload_filter [of "''laptop limit''" 3 "''3.2''"] by simp

section \<open>The average confidence\<close>



section \<open>Citations\<close>

text \<open>
  Claim C8: the citation at each position of \<open>citations\<close> is the citation of the section
  at the same position of \<open>relevant_sections\<close>, and for a section number \<open>n\<close> and a
  title \<open>t\<close> that citation is \<open>"Section n"\<close> when the title is empty and
  \<open>"Section n (t)"\<close> otherwise.
\<close>

theorem citations_follow_sections:
  "(format_response str raw q = Inr r \<longrightarrow>
      citations r = map (citation_of str) (relevant_sections r)) \<and>
   (section_number s = PStr n \<and> section_title s = PStr t \<longrightarrow>
      citation_of str s =
        (if t = [] then ''Section '' @ n else ''Section '' @ n @ '' ('' @ t @ '')''))"
proof (intro conjI impI)
  assume "format_response str raw q = Inr r"
  from format_response_Inr [OF this] obtain md cs where
    "format_loop str md 0 cs ([], [], []) = Inr (relevant_sections r, citations r, scores (confidence r))"
    by blast
  from format_loop_Inr [OF this] obtain xs where
    xs: "length xs = length cs" "relevant_sections r = map fst xs"
        "citations r = map (fst \<circ> snd) xs"
        "\<forall>j<length cs. format_chunk str md j (cs ! j) = Inr (xs ! j)"
    by auto
  have "fst (snd x) = citation_of str (fst x)" if "x \<in> set xs" for x
  proof -
    from that obtain j where j: "j < length xs" "xs ! j = x" by (auto simp: in_set_conv_nth)
    obtain info cit sc where t: "x = (info, cit, sc)" by (cases x) auto
    from xs(1,4) j t have "format_chunk str md j (cs ! j) = Inr (info, cit, sc)" by simp
    from format_chunk_Inr [OF this] t show ?thesis by simp
  qed
  with xs(2,3) show "citations r = map (citation_of str) (relevant_sections r)" by simp
next
  assume "section_number s = PStr n \<and> section_title s = PStr t"
  then show "citation_of str s =
        (if t = [] then ''Section '' @ n else ''Section '' @ n @ '' ('' @ t @ '')'')"
    by (simp add: citation_of_def)
qed

theorem citations_follow_sections_witness:
  "(\<exists>r. format_response (\<lambda>v. ''?'')
     (PDict [(''outputs'', PList [PDict [(''outputs'', PList [PDict
        [(''chunks'', PList
            [PDict [(''text'', PStr ''Interns may order tier 1 equipment.''),
                    (''similarity_score'', PFloat (9 / 10))],
             PDict [(''text'', PStr ''Managers may order tier 3 equipment.''),
                    (''similarity_score'', PFloat (4 / 5))]]),
         (''metadata'', PList
            [PDict [(''section_number'', PStr ''3.2''),
                    (''section_title'', PStr ''Equipment Tiers''),
                    (''page_number'', PInt 12)],
             PDict [(''section_number'', PStr ''3.2'')]])]])]])])
     ''equipment limit'' = Inr r \<and>
     citations r = map (citation_of (\<lambda>v. ''?'')) (relevant_sections r) \<and>
     citations r = [''Section 3.2 (Equipment Tiers)'', ''Section 3.2'']) \<and>
   citation_of (\<lambda>v. ''?'')
     \<lparr>content = PStr ''Interns may order tier 1 equipment.'', section_number = PStr ''3.2'',
      section_title = PStr ''Equipment Tiers'', page_number = PInt 12\<rparr>
     = ''Section 3.2 (Equipment Tiers)'' \<and>
   citation_of (\<lambda>v. ''?'')
     \<lparr>content = PStr ''Managers may order tier 3 equipment.'', section_number = PStr ''3.2'',
      section_title = PStr [], page_number = PInt 0\<rparr>
     = ''Section 3.2''"
proof -
  let ?s1 = "\<lparr>content = PStr ''Interns may order tier 1 equipment.'',
               section_number = PStr ''3.2'', section_title = PStr ''Equipment Tiers'',
               page_number = PInt 12\<rparr>"
  let ?s2 = "\<lparr>content = PStr ''Managers may order tier 3 equipment.'',
               section_number = PStr ''3.2'', section_title = PStr [],
               page_number = PInt 0\<rparr>"
  let ?r = "\<lparr>query = ''equipment limit'',
          relevant_sections = [?s1, ?s2],
          citations = [''Section 3.2 (Equipment Tiers)'', ''Section 3.2''],
          confidence = \<lparr>scores = [PFloat (9 / 10), PFloat (4 / 5)], average = PFloat (17 / 20)\<rparr>,
          summary = ''Based on Section 3.2: Interns may order tier 1 equipment.'',
          source = ''ACME Corp Procurement Policy v2.1''\<rparr>"
  from citations_follow_sections [of _ _ _ ?r ?s1 "''3.2''" "''Equipment Tiers''"]
    format_response_example
  have a: "citations ?r = map (citation_of (\<lambda>v. ''?'')) (relevant_sections ?r)"
    "citation_of (\<lambda>v. ''?'') ?s1 = ''Section 3.2 (Equipment Tiers)''"
    by simp_all
  from citations_follow_sections [of _ _ _ _ ?s2 "''3.2''" "[]"]
  have b: "citation_of (\<lambda>v. ''?'') ?s2 = ''Section 3.2''" by simp
  from format_response_example a b show ?thesis by simp
qed

section \<open>An empty filter\<close>

text \<open>
  Claim C9: with the empty string as \<open>section_filter\<close> the payload is the one built
  without a filter, and no \<open>filter\<close> key occurs in it.
\<close>

theorem payload_empty_filter_omitted:
  "payload q (Some []) k = payload q None k \<and>
   ''filter'' \<notin> set (all_keys (payload q (Some []) k))"
  by (simp add: payload_def retriever_tweaks_def)

section \<open>A chunk without \<open>text\<close>\<close>



end
